theory Spec2Isabelle
  imports Main "HOL-Library.Sublist"
begin

section \<open>The Chicago taxi importer pipeline\<close>

text \<open>
  A shallow embedding of \<^verbatim>\<open>tfx/examples/chicago_taxi_pipeline/taxi_pipeline_importer.py\<close>.
  The script computes a few paths from the environment variable \<^verbatim>\<open>HOME\<close>, builds ten
  framework components, collects them in a \<^verbatim>\<open>pipeline.Pipeline\<close> and hands that
  to \<^verbatim>\<open>BeamDagRunner().run\<close>.

  The framework classes themselves are not part of the example. A call of one of their
  constructors is therefore modelled as the constructor's name together with the
  keyword arguments the script passes, in the order the script writes them; what
  the framework does with them afterwards is outside this development.
\<close>

subsection \<open>Values handed to the framework\<close>

text \<open>The artifact types imported from \<^verbatim>\<open>tfx.types.standard_artifacts\<close>.\<close>

datatype artifact_type = Model | ModelBlessing | Schema

text \<open>The resolver class imported from \<^verbatim>\<open>tfx.dsl.experimental\<close>.\<close>

datatype resolver_class = LatestBlessedModelResolver

text \<open>
  A floating point literal, kept as the decimal the source writes: \<open>Float_lit m e\<close> stands
  for the literal \<open>m \<times> 10\<^sup>e\<close>. So \<^verbatim>\<open>0.6\<close> is \<open>Float_lit 6 (-1)\<close> and \<^verbatim>\<open>-1e-10\<close>
  is \<open>Float_lit (-1) (-10)\<close>. No arithmetic is done on these values by the script.
\<close>

datatype float_lit = Float_lit int int

text \<open>\<^verbatim>\<open>trainer_pb2.TrainArgs(num_steps=...)\<close> and \<^verbatim>\<open>trainer_pb2.EvalArgs(num_steps=...)\<close>.\<close>

datatype TrainArgs = TrainArgs int

datatype EvalArgs = EvalArgs int

text \<open>\<^verbatim>\<open>pusher_pb2.PushDestination(filesystem=PushDestination.Filesystem(base_directory=...))\<close>.\<close>

record Filesystem =
  base_directory :: string

record PushDestination =
  filesystem :: Filesystem

text \<open>
  The evaluation configuration of \<^verbatim>\<open>tensorflow_model_analysis\<close>. Each message is a
  record of the fields the script sets. The Python dict literals (\<^verbatim>\<open>{'value': 0.6}\<close>,
  \<^verbatim>\<open>thresholds={'accuracy': ...}\<close>) are association lists in the order written.
\<close>

datatype MetricDirection = UNKNOWN | LOWER_IS_BETTER | HIGHER_IS_BETTER

record ModelSpec =
  signature_name :: string

record SlicingSpec =
  feature_keys :: "string list"

record GenericValueThreshold =
  lower_bound :: "(string \<times> float_lit) list"

record GenericChangeThreshold =
  direction :: MetricDirection
  absolute :: "(string \<times> float_lit) list"

record MetricThreshold =
  value_threshold :: GenericValueThreshold
  change_threshold :: GenericChangeThreshold

record MetricsSpec =
  thresholds :: "(string \<times> MetricThreshold) list"

record EvalConfig =
  model_specs :: "ModelSpec list"
  slicing_specs :: "SlicingSpec list"
  metrics_specs :: "MetricsSpec list"

text \<open>\<^verbatim>\<open>metadata.sqlite_metadata_connection_config(metadata_path)\<close>, kept as the call it is.\<close>

datatype connection_config = sqlite_metadata_connection_config string

subsection \<open>Channels, components and the pipeline\<close>

text \<open>
  Component objects are told apart by object identity. The model names each object by
  the local variable of \<^verbatim>\<open>_create_pipeline\<close> it is bound to (every local there is
  assigned once). A channel is either \<open>Output x k\<close>, the expression \<^verbatim>\<open>x.outputs['k']\<close>
  for the component bound to \<open>x\<close>, or \<open>Channel ty\<close>, a fresh \<^verbatim>\<open>Channel(type=ty)\<close>
  that no component produces.
\<close>

datatype channel = Output string string | Channel artifact_type

text \<open>
  One constructor per framework class the script instantiates; the arguments are the
  keyword arguments of the call, in the script's order:
  \<^item> \<open>CsvExampleGen input_base\<close>
  \<^item> \<open>StatisticsGen examples\<close>
  \<^item> \<open>ImporterNode instance_name source_uri artifact_type\<close>
  \<^item> \<open>SchemaGen statistics infer_feature_shape\<close>
  \<^item> \<open>ExampleValidator statistics schema\<close>
  \<^item> \<open>Transform examples schema module_file\<close>
  \<^item> \<open>Trainer module_file transformed_examples schema transform_graph train_args eval_args\<close>
  \<^item> \<open>ResolverNode instance_name resolver_class model model_blessing\<close>
  \<^item> \<open>Evaluator examples model baseline_model eval_config\<close>
  \<^item> \<open>Pusher model model_blessing push_destination\<close>
\<close>

datatype component =
    CsvExampleGen string
  | StatisticsGen channel
  | ImporterNode string string artifact_type
  | SchemaGen channel bool
  | ExampleValidator channel channel
  | Transform channel channel string
  | Trainer string channel channel channel TrainArgs EvalArgs
  | ResolverNode string resolver_class channel channel
  | Evaluator channel channel channel EvalConfig
  | Pusher channel channel PushDestination

text \<open>The name of a component's class, \<^verbatim>\<open>type(c).__name__\<close>.\<close>

fun class_name :: "component \<Rightarrow> string" where
  "class_name (CsvExampleGen _) = ''CsvExampleGen''"
| "class_name (StatisticsGen _) = ''StatisticsGen''"
| "class_name (ImporterNode _ _ _) = ''ImporterNode''"
| "class_name (SchemaGen _ _) = ''SchemaGen''"
| "class_name (ExampleValidator _ _) = ''ExampleValidator''"
| "class_name (Transform _ _ _) = ''Transform''"
| "class_name (Trainer _ _ _ _ _ _) = ''Trainer''"
| "class_name (ResolverNode _ _ _ _) = ''ResolverNode''"
| "class_name (Evaluator _ _ _ _) = ''Evaluator''"
| "class_name (Pusher _ _ _) = ''Pusher''"

text \<open>The channels a component is given, each under the keyword it is passed as.\<close>

fun inputs :: "component \<Rightarrow> (string \<times> channel) list" where
  "inputs (CsvExampleGen _) = []"
| "inputs (StatisticsGen ex) = [(''examples'', ex)]"
| "inputs (ImporterNode _ _ _) = []"
| "inputs (SchemaGen st _) = [(''statistics'', st)]"
| "inputs (ExampleValidator st sc) = [(''statistics'', st), (''schema'', sc)]"
| "inputs (Transform ex sc _) = [(''examples'', ex), (''schema'', sc)]"
| "inputs (Trainer _ te sc tg _ _) =
     [(''transformed_examples'', te), (''schema'', sc), (''transform_graph'', tg)]"
| "inputs (ResolverNode _ _ m mb) = [(''model'', m), (''model_blessing'', mb)]"
| "inputs (Evaluator ex m bm _) = [(''examples'', ex), (''model'', m), (''baseline_model'', bm)]"
| "inputs (Pusher m mb _) = [(''model'', m), (''model_blessing'', mb)]"

text \<open>A component object: the local variable that holds it, and the constructor call.\<close>

record node =
  ident :: string
  obj :: component

text \<open>
  \<^verbatim>\<open>n.outputs[k]\<close>: the channel of \<open>n\<close> under key \<open>k\<close>. Which keys a component
  offers is decided by its framework class; the lookup is kept as written.
\<close>

definition outputs :: "node \<Rightarrow> string \<Rightarrow> channel" where
  "outputs n k = Output (ident n) k"

text \<open>The keyword arguments of \<^verbatim>\<open>pipeline.Pipeline(...)\<close>.\<close>

record pipeline =
  pipeline_name :: string
  pipeline_root :: string
  components :: "node list"
  enable_cache :: bool
  metadata_connection_config :: connection_config
  beam_pipeline_args :: "string list"

subsection \<open>The environment and \<^verbatim>\<open>os.path.join\<close>\<close>

text \<open>
  \<^verbatim>\<open>os.environ\<close> is a dict of strings, here an association list. \<^verbatim>\<open>os.environ[k]\<close>
  raises \<^verbatim>\<open>KeyError\<close> for a variable that is not set.
\<close>

type_synonym environ = "(string \<times> string) list"

datatype error = KeyError string

definition environ_get :: "environ \<Rightarrow> string \<Rightarrow> error + string" where
  "environ_get env k = (case map_of env k of None \<Rightarrow> Inl (KeyError k) | Some v \<Rightarrow> Inr v)"

text \<open>
  \<^verbatim>\<open>os.path.join(a, *p)\<close> of the POSIX path module: a component that starts with the
  separator (\<open>starts_with_sep\<close>, Python's \<^verbatim>\<open>b.startswith('/')\<close>) replaces what was
  joined so far; otherwise it is appended, after a separator unless the path so far is
  empty or already ends with one.
\<close>

definition starts_with_sep :: "string \<Rightarrow> bool" where
  "starts_with_sep b = (case b of [] \<Rightarrow> False | c # _ \<Rightarrow> c = CHR ''/'')"

definition join_step :: "string \<Rightarrow> string \<Rightarrow> string" where
  "join_step path b =
     (if starts_with_sep b then b
      else if path = [] \<or> last path = CHR ''/'' then path @ b
      else path @ ''/'' @ b)"

definition os_path_join :: "string \<Rightarrow> string list \<Rightarrow> string" where
  "os_path_join a p = foldl join_step a p"

subsection \<open>\<^verbatim>\<open>_create_pipeline\<close>\<close>

text \<open>The local \<^verbatim>\<open>eval_config\<close>: it is built from literals only.\<close>

definition eval_config :: EvalConfig where
  "eval_config =
     \<lparr>model_specs = [\<lparr>signature_name = ''eval''\<rparr>],
      slicing_specs = [\<lparr>feature_keys = []\<rparr>, \<lparr>feature_keys = [''trip_start_hour'']\<rparr>],
      metrics_specs =
        [\<lparr>thresholds =
            [(''accuracy'',
              \<lparr>value_threshold = \<lparr>lower_bound = [(''value'', Float_lit 6 (- 1))]\<rparr>,
               change_threshold =
                 \<lparr>direction = HIGHER_IS_BETTER,
                  absolute = [(''value'', Float_lit (- 1) (- 10))]\<rparr>\<rparr>)]\<rparr>]\<rparr>"

text \<open>
  The function body, one binding per assignment of the source. The first argument
  \<open>env\<close> is not a parameter of the Python function: it is the process environment,
  which any Python code can read through \<^verbatim>\<open>os.environ\<close>. It is made explicit so
  that a dependence on it could be written down; the body never reads it.
\<close>

definition create_pipeline ::
  "environ \<Rightarrow> string \<Rightarrow> string \<Rightarrow> string \<Rightarrow> string \<Rightarrow> string \<Rightarrow> string \<Rightarrow> string \<Rightarrow> string list
     \<Rightarrow> pipeline" where
  "create_pipeline env pipeline_name' pipeline_root' data_root user_schema_path module_file
       serving_model_dir metadata_path beam_pipeline_args' =
     (let example_gen = \<lparr>ident = ''example_gen'', obj = CsvExampleGen data_root\<rparr>;
          statistics_gen =
            \<lparr>ident = ''statistics_gen'',
             obj = StatisticsGen (outputs example_gen ''examples'')\<rparr>;
          user_schema_importer =
            \<lparr>ident = ''user_schema_importer'',
             obj = ImporterNode ''import_user_schema'' user_schema_path Schema\<rparr>;
          schema_gen =
            \<lparr>ident = ''schema_gen'',
             obj = SchemaGen (outputs statistics_gen ''statistics'') False\<rparr>;
          example_validator =
            \<lparr>ident = ''example_validator'',
             obj = ExampleValidator (outputs statistics_gen ''statistics'')
                     (outputs user_schema_importer ''result'')\<rparr>;
          transform =
            \<lparr>ident = ''transform'',
             obj = Transform (outputs example_gen ''examples'')
                     (outputs user_schema_importer ''result'') module_file\<rparr>;
          trainer =
            \<lparr>ident = ''trainer'',
             obj = Trainer module_file (outputs transform ''transformed_examples'')
                     (outputs user_schema_importer ''result'')
                     (outputs transform ''transform_graph'')
                     (TrainArgs 10000) (EvalArgs 5000)\<rparr>;
          model_resolver =
            \<lparr>ident = ''model_resolver'',
             obj = ResolverNode ''latest_blessed_model_resolver'' LatestBlessedModelResolver
                     (Channel Model) (Channel ModelBlessing)\<rparr>;
          evaluator =
            \<lparr>ident = ''evaluator'',
             obj = Evaluator (outputs example_gen ''examples'') (outputs trainer ''model'')
                     (outputs model_resolver ''model'') eval_config\<rparr>;
          pusher =
            \<lparr>ident = ''pusher'',
             obj = Pusher (outputs trainer ''model'') (outputs evaluator ''blessing'')
                     \<lparr>filesystem = \<lparr>base_directory = serving_model_dir\<rparr>\<rparr>\<rparr>
      in \<lparr>pipeline_name = pipeline_name',
          pipeline_root = pipeline_root',
          components =
            [example_gen, statistics_gen, user_schema_importer, schema_gen,
             example_validator, transform, trainer, model_resolver, evaluator, pusher],
          enable_cache = True,
          metadata_connection_config = sqlite_metadata_connection_config metadata_path,
          beam_pipeline_args = beam_pipeline_args'\<rparr>)"

subsection \<open>The module level and the main block\<close>

text \<open>
  The names the module binds before the function definition. The source writes them
  with a leading underscore (\<^verbatim>\<open>_taxi_root\<close>, ...), which is \<open>g_\<close> here.
\<close>

record module_globals =
  g_pipeline_name :: string
  g_taxi_root :: string
  g_data_root :: string
  g_module_file :: string
  g_serving_model_dir :: string
  g_tfx_root :: string
  g_pipeline_root :: string
  g_metadata_path :: string
  g_user_schema_path :: string
  g_beam_pipeline_args :: "string list"

text \<open>
  The module-level assignments in source order. \<^verbatim>\<open>os.environ['HOME']\<close> is read twice
  (for \<^verbatim>\<open>_taxi_root\<close> and for \<^verbatim>\<open>_tfx_root\<close>); either read raises when \<^verbatim>\<open>HOME\<close> is not set.
\<close>

definition module_level :: "environ \<Rightarrow> error + module_globals" where
  "module_level env =
     (let pipeline_name' = ''chicago_taxi_importer'' in
      case environ_get env ''HOME'' of
        Inl e \<Rightarrow> Inl e
      | Inr home \<Rightarrow>
          (let taxi_root = os_path_join home [''taxi''];
               data_root = os_path_join taxi_root [''data'', ''simple''];
               module_file = os_path_join taxi_root [''taxi_utils.py''];
               serving_model_dir = os_path_join taxi_root [''serving_model'', pipeline_name']
           in case environ_get env ''HOME'' of
                Inl e \<Rightarrow> Inl e
              | Inr home' \<Rightarrow>
                  (let tfx_root = os_path_join home' [''tfx''];
                       pipeline_root' = os_path_join tfx_root [''pipelines'', pipeline_name'];
                       metadata_path =
                         os_path_join tfx_root [''metadata'', pipeline_name', ''metadata.db''];
                       user_schema_path =
                         os_path_join taxi_root [''data'', ''user_provided_schema''];
                       beam_pipeline_args' =
                         [''--direct_running_mode=multi_processing'', ''--direct_num_workers=0'']
                   in Inr \<lparr>g_pipeline_name = pipeline_name',
                           g_taxi_root = taxi_root,
                           g_data_root = data_root,
                           g_module_file = module_file,
                           g_serving_model_dir = serving_model_dir,
                           g_tfx_root = tfx_root,
                           g_pipeline_root = pipeline_root',
                           g_metadata_path = metadata_path,
                           g_user_schema_path = user_schema_path,
                           g_beam_pipeline_args = beam_pipeline_args'\<rparr>)))"

text \<open>
  What the script does to the outside: it sets the logging verbosity and it calls the
  runner. \<open>script env argv name\<close> runs the file in a process with environment \<open>env\<close>
  and command line \<open>argv\<close>, as the module called \<open>name\<close>; the result is the exception
  that ends the run, or the calls made, in order. The only exception the file can
  raise by itself comes before the first call.
\<close>

datatype log_level = DEBUG | INFO | WARNING | ERROR | FATAL

datatype effect = Set_verbosity log_level | BeamDagRunner_run pipeline

definition script :: "environ \<Rightarrow> string list \<Rightarrow> string \<Rightarrow> error + effect list" where
  "script env argv name =
     (case module_level env of
        Inl e \<Rightarrow> Inl e
      | Inr g \<Rightarrow>
          if name = ''__main__'' then
            Inr [Set_verbosity INFO,
                 BeamDagRunner_run
                   (create_pipeline env (g_pipeline_name g) (g_pipeline_root g) (g_data_root g)
                      (g_user_schema_path g) (g_module_file g) (g_serving_model_dir g)
                      (g_metadata_path g) (g_beam_pipeline_args g))]
          else Inr [])"

text \<open>The pipelines handed to the runner in a run of the script.\<close>

fun run_calls :: "error + effect list \<Rightarrow> pipeline list" where
  "run_calls (Inl _) = []"
| "run_calls (Inr es) = concat (map (\<lambda>e. case e of BeamDagRunner_run p \<Rightarrow> [p] | _ \<Rightarrow> []) es)"

subsection \<open>The graph of a pipeline\<close>

text \<open>
  An edge \<open>(x, y)\<close> says that the component bound to \<open>y\<close> is given an output channel
  of the component bound to \<open>x\<close>.
\<close>

definition producers :: "component \<Rightarrow> string list" where
  "producers c =
     concat (map (\<lambda>(k, ch). case ch of Output x _ \<Rightarrow> [x] | Channel _ \<Rightarrow> []) (inputs c))"

definition edges :: "pipeline \<Rightarrow> (string \<times> string) list" where
  "edges p = concat (map (\<lambda>n. map (\<lambda>x. (x, ident n)) (producers (obj n))) (components p))"

text \<open>The component object bound to a local, found in the components list.\<close>

definition lookup_node :: "pipeline \<Rightarrow> string \<Rightarrow> node option" where
  "lookup_node p x = find (\<lambda>n. ident n = x) (components p)"

text \<open>The components of a pipeline that are instances of a given class.\<close>

definition of_class :: "pipeline \<Rightarrow> string \<Rightarrow> node list" where
  "of_class p cls = filter (\<lambda>n. class_name (obj n) = cls) (components p)"

text \<open>The components that are given an output of the component bound to \<open>x\<close>.\<close>

definition consumers :: "pipeline \<Rightarrow> string \<Rightarrow> string list" where
  "consumers p x = map snd (filter (\<lambda>e. fst e = x) (edges p))"

text \<open>The components that take a schema, each with the channel it is given as \<^verbatim>\<open>schema\<close>.\<close>

definition schema_inputs :: "pipeline \<Rightarrow> (string \<times> channel) list" where
  "schema_inputs p =
     concat (map (\<lambda>n. case map_of (inputs (obj n)) ''schema'' of
                          None \<Rightarrow> []
                        | Some ch \<Rightarrow> [(ident n, ch)]) (components p))"

text \<open>All metric thresholds of an evaluation configuration, over all its metrics specs.\<close>

definition metric_thresholds :: "EvalConfig \<Rightarrow> (string \<times> MetricThreshold) list" where
  "metric_thresholds cfg = concat (map thresholds (metrics_specs cfg))"

text \<open>The nine classes the description lists.\<close>

definition listed_types :: "string list" where
  "listed_types =
     [''CsvExampleGen'', ''StatisticsGen'', ''SchemaGen'', ''ExampleValidator'', ''Transform'',
      ''Trainer'', ''Evaluator'', ''Pusher'', ''ResolverNode'']"

definition all_listed :: "pipeline \<Rightarrow> bool" where
  "all_listed p = list_all (\<lambda>n. class_name (obj n) \<in> set listed_types) (components p)"

text \<open>The place of a name in a list of names (the length of the list if it is not there).\<close>

fun position :: "string list \<Rightarrow> string \<Rightarrow> nat" where
  "position [] x = 0"
| "position (y # ys) x = (if y = x then 0 else Suc (position ys x))"

section \<open>Properties\<close>

subsection \<open>What \<^verbatim>\<open>_create_pipeline\<close> builds\<close>

text \<open>The components list with every \<^verbatim>\<open>outputs\<close> lookup resolved.\<close>

lemma create_pipeline_components:
  "components (create_pipeline env pn pr dr us mf sd mp bpa) =
     [\<lparr>ident = ''example_gen'', obj = CsvExampleGen dr\<rparr>,
      \<lparr>ident = ''statistics_gen'', obj = StatisticsGen (Output ''example_gen'' ''examples'')\<rparr>,
      \<lparr>ident = ''user_schema_importer'', obj = ImporterNode ''import_user_schema'' us Schema\<rparr>,
      \<lparr>ident = ''schema_gen'', obj = SchemaGen (Output ''statistics_gen'' ''statistics'') False\<rparr>,
      \<lparr>ident = ''example_validator'',
       obj = ExampleValidator (Output ''statistics_gen'' ''statistics'')
               (Output ''user_schema_importer'' ''result'')\<rparr>,
      \<lparr>ident = ''transform'',
       obj = Transform (Output ''example_gen'' ''examples'')
               (Output ''user_schema_importer'' ''result'') mf\<rparr>,
      \<lparr>ident = ''trainer'',
       obj = Trainer mf (Output ''transform'' ''transformed_examples'')
               (Output ''user_schema_importer'' ''result'')
               (Output ''transform'' ''transform_graph'') (TrainArgs 10000) (EvalArgs 5000)\<rparr>,
      \<lparr>ident = ''model_resolver'',
       obj = ResolverNode ''latest_blessed_model_resolver'' LatestBlessedModelResolver
               (Channel Model) (Channel ModelBlessing)\<rparr>,
      \<lparr>ident = ''evaluator'',
       obj = Evaluator (Output ''example_gen'' ''examples'') (Output ''trainer'' ''model'')
               (Output ''model_resolver'' ''model'') eval_config\<rparr>,
      \<lparr>ident = ''pusher'',
       obj = Pusher (Output ''trainer'' ''model'') (Output ''evaluator'' ''blessing'')
               \<lparr>filesystem = \<lparr>base_directory = sd\<rparr>\<rparr>\<rparr>]"
  by (simp add: create_pipeline_def Let_def outputs_def)

lemma create_pipeline_idents:
  "map ident (components (create_pipeline env pn pr dr us mf sd mp bpa)) =
     [''example_gen'', ''statistics_gen'', ''user_schema_importer'', ''schema_gen'',
      ''example_validator'', ''transform'', ''trainer'', ''model_resolver'', ''evaluator'',
      ''pusher'']"
  by (simp add: create_pipeline_components)

lemma create_pipeline_edges:
  "edges (create_pipeline env pn pr dr us mf sd mp bpa) =
     [(''example_gen'', ''statistics_gen''),
      (''statistics_gen'', ''schema_gen''),
      (''statistics_gen'', ''example_validator''),
      (''user_schema_importer'', ''example_validator''),
      (''example_gen'', ''transform''),
      (''user_schema_importer'', ''transform''),
      (''transform'', ''trainer''),
      (''user_schema_importer'', ''trainer''),
      (''transform'', ''trainer''),
      (''example_gen'', ''evaluator''),
      (''trainer'', ''evaluator''),
      (''model_resolver'', ''evaluator''),
      (''trainer'', ''pusher''),
      (''evaluator'', ''pusher'')]"
  by (simp add: edges_def producers_def create_pipeline_components)

lemma beam_pipeline_args_create_pipeline:
  "beam_pipeline_args (create_pipeline env pn pr dr us mf sd mp bpa) = bpa"
  by (simp add: create_pipeline_def Let_def)

text \<open>
  The components list is a topological order of the graph: every edge leads from a
  component to one that stands later in the list.
\<close>

lemma edges_forward:
  assumes "p = create_pipeline env pn pr dr us mf sd mp bpa"
  shows "list_all
      (\<lambda>(x, y). position (map ident (components p)) x < position (map ident (components p)) y)
      (edges p)"
  unfolding assms create_pipeline_idents create_pipeline_edges by simp

lemma acyclic_by_rank:
  fixes rank :: "'a \<Rightarrow> nat"
  assumes "\<And>x y. (x, y) \<in> r \<Longrightarrow> rank x < rank y"
  shows "acyclic r"
proof -
  have "r \<subseteq> measure rank"
    using assms by auto
  moreover have "acyclic (measure rank)"
    by (rule wf_acyclic) simp
  ultimately show ?thesis
    by (rule acyclic_subset [rotated])
qed

subsection \<open>The module level\<close>

lemma module_level_HOME:
  assumes "map_of env ''HOME'' = Some home"
  shows "module_level env =
     Inr \<lparr>g_pipeline_name = ''chicago_taxi_importer'',
          g_taxi_root = os_path_join home [''taxi''],
          g_data_root = os_path_join home [''taxi'', ''data'', ''simple''],
          g_module_file = os_path_join home [''taxi'', ''taxi_utils.py''],
          g_serving_model_dir =
            os_path_join home [''taxi'', ''serving_model'', ''chicago_taxi_importer''],
          g_tfx_root = os_path_join home [''tfx''],
          g_pipeline_root = os_path_join home [''tfx'', ''pipelines'', ''chicago_taxi_importer''],
          g_metadata_path =
            os_path_join home [''tfx'', ''metadata'', ''chicago_taxi_importer'', ''metadata.db''],
          g_user_schema_path = os_path_join home [''taxi'', ''data'', ''user_provided_schema''],
          g_beam_pipeline_args =
            [''--direct_running_mode=multi_processing'', ''--direct_num_workers=0'']\<rparr>"
  using assms by (simp add: module_level_def environ_get_def Let_def os_path_join_def)

lemma module_level_no_HOME:
  assumes "map_of env ''HOME'' = None"
  shows "module_level env = Inl (KeyError ''HOME'')"
  using assms by (simp add: module_level_def environ_get_def)

lemma module_level_beam_pipeline_args:
  assumes "module_level env = Inr g"
  shows "g_beam_pipeline_args g =
     [''--direct_running_mode=multi_processing'', ''--direct_num_workers=0'']"
proof (cases "map_of env ''HOME''")
  case None
  then have "module_level env = Inl (KeyError ''HOME'')"
    by (rule module_level_no_HOME)
  with assms show ?thesis by simp
next
  case (Some home)
  from module_level_HOME [OF Some] assms show ?thesis
    by auto
qed

lemma run_calls_main:
  assumes "module_level env = Inr g"
  shows "run_calls (script env argv ''__main__'') =
     [create_pipeline env (g_pipeline_name g) (g_pipeline_root g) (g_data_root g)
        (g_user_schema_path g) (g_module_file g) (g_serving_model_dir g)
        (g_metadata_path g) (g_beam_pipeline_args g)]"
  using assms by (simp add: script_def)

text \<open>
  Joining components none of which starts with the separator keeps the first
  argument as a prefix of the result.
\<close>

lemma join_step_prefix:
  assumes "\<not> starts_with_sep b" and "prefix a path"
  shows "prefix a (join_step path b)"
  using assms by (auto simp: join_step_def prefix_def)

lemma foldl_join_step_prefix:
  assumes "list_all (\<lambda>b. \<not> starts_with_sep b) ps" and "prefix a path"
  shows "prefix a (foldl join_step path ps)"
  using assms
proof (induction ps arbitrary: path)
  case Nil
  then show ?case by simp
next
  case (Cons b ps)
  from Cons.prems have "prefix a (join_step path b)"
    by (simp add: join_step_prefix)
  moreover from Cons.prems have "list_all (\<lambda>b. \<not> starts_with_sep b) ps"
    by simp
  ultimately show ?case
    using Cons.IH by simp
qed

lemma os_path_join_prefix:
  assumes "list_all (\<lambda>b. \<not> starts_with_sep b) ps"
  shows "prefix a (os_path_join a ps)"
  unfolding os_path_join_def using assms by (rule foldl_join_step_prefix) simp

section \<open>The claims\<close>

subsection \<open>C1: the classes of the components\<close>

text \<open>
  The components list holds an \<^verbatim>\<open>ImporterNode\<close> (the local \<^verbatim>\<open>user_schema_importer\<close>),
  and \<^verbatim>\<open>ImporterNode\<close> is not one of the nine listed classes. So the list is not made of
  instances of the nine classes only, whatever the arguments; here with all arguments
  empty.
\<close>

theorem importer_node_not_listed:
  "\<not> all_listed (create_pipeline [] [] [] [] [] [] [] [] [])"
  by (simp add: all_listed_def listed_types_def create_pipeline_components)

text \<open>
  Claim C1, as amended. Every element of the components list passed to
  \<^verbatim>\<open>pipeline.Pipeline\<close> is an instance of one of ten classes: the nine listed ones or
  \<^verbatim>\<open>ImporterNode\<close>. Exactly one element is not of a listed class: the importer of the
  user-provided schema.
\<close>

theorem components_listed_or_importer:
  "filter (\<lambda>n. class_name (obj n) \<notin> set listed_types)
       (components (create_pipeline env pn pr dr us mf sd mp bpa)) =
     [\<lparr>ident = ''user_schema_importer'', obj = ImporterNode ''import_user_schema'' us Schema\<rparr>]
   \<and> list_all (\<lambda>n. class_name (obj n) \<in> set (listed_types @ [''ImporterNode'']))
       (components (create_pipeline env pn pr dr us mf sd mp bpa))"
  by (simp add: listed_types_def create_pipeline_components)

subsection \<open>C2: the thresholds of the Evaluator\<close>

text \<open>
  Claim C2. For all arguments, the pipeline has one Evaluator, and its \<^verbatim>\<open>eval_config\<close> is
  the constant \<open>eval_config\<close>. The only metric with thresholds in that configuration is
  \<^verbatim>\<open>accuracy\<close>; its value threshold has the lower bound \<^verbatim>\<open>0.6\<close> and its change threshold
  has the direction \<^verbatim>\<open>HIGHER_IS_BETTER\<close>.
\<close>

theorem evaluator_accuracy_thresholds:
  "of_class (create_pipeline env pn pr dr us mf sd mp bpa) ''Evaluator'' =
     [\<lparr>ident = ''evaluator'',
       obj = Evaluator (Output ''example_gen'' ''examples'') (Output ''trainer'' ''model'')
               (Output ''model_resolver'' ''model'') eval_config\<rparr>]
   \<and> map fst (metric_thresholds eval_config) = [''accuracy'']
   \<and> map (\<lambda>(m, t). lower_bound (value_threshold t)) (metric_thresholds eval_config) =
       [[(''value'', Float_lit 6 (- 1))]]
   \<and> map (\<lambda>(m, t). direction (change_threshold t)) (metric_thresholds eval_config) =
       [HIGHER_IS_BETTER]"
  by (simp add: of_class_def create_pipeline_components metric_thresholds_def eval_config_def)

subsection \<open>C3: the Beam arguments\<close>

text \<open>
  Claim C3. Once the module level has run, \<^verbatim>\<open>_beam_pipeline_args\<close> has two elements, and
  the pipeline handed to the runner by the main block has exactly that list as its
  \<^verbatim>\<open>beam_pipeline_args\<close>. More generally \<^verbatim>\<open>_create_pipeline\<close> stores the list it is given
  without changing it.
\<close>

theorem beam_pipeline_args_unchanged:
  assumes "module_level env = Inr g"
  shows "length (g_beam_pipeline_args g) = 2
    \<and> map beam_pipeline_args (run_calls (script env argv ''__main__'')) = [g_beam_pipeline_args g]
    \<and> beam_pipeline_args (create_pipeline env' pn pr dr us mf sd mp bpa) = bpa"
proof -
  have "length (g_beam_pipeline_args g) = 2"
    using module_level_beam_pipeline_args [OF assms] by simp
  moreover have "map beam_pipeline_args (run_calls (script env argv ''__main__'')) =
      [g_beam_pipeline_args g]"
    by (simp add: run_calls_main [OF assms] beam_pipeline_args_create_pipeline)
  ultimately show ?thesis
    by (simp add: beam_pipeline_args_create_pipeline)
qed

text \<open>The same in a process whose \<^verbatim>\<open>HOME\<close> is \<^verbatim>\<open>/home/alice\<close>.\<close>

theorem beam_pipeline_args_unchanged_witness:
  "\<exists>g. module_level [(''HOME'', ''/home/alice'')] = Inr g
     \<and> length (g_beam_pipeline_args g) = 2
     \<and> map beam_pipeline_args (run_calls (script [(''HOME'', ''/home/alice'')] [] ''__main__'')) =
         [g_beam_pipeline_args g]
     \<and> map beam_pipeline_args (run_calls (script [(''HOME'', ''/home/alice'')] [] ''__main__'')) =
         [[''--direct_running_mode=multi_processing'', ''--direct_num_workers=0'']]"
proof -
  have "map_of [(''HOME'', ''/home/alice'')] ''HOME'' = Some ''/home/alice''"
    by simp
  from module_level_HOME [OF this] obtain g
    where g: "module_level [(''HOME'', ''/home/alice'')] = Inr g"
    by blast
  from beam_pipeline_args_unchanged [OF g, of "[]"] module_level_beam_pipeline_args [OF g] g
  show ?thesis
    by auto
qed

subsection \<open>C4: the graph is acyclic\<close>

text \<open>
  Claim C4. For all arguments, the edges between the components of the pipeline that
  \<^verbatim>\<open>_create_pipeline\<close> returns form an acyclic graph: no component is reachable from
  itself along one or more edges. The names of the components are pairwise distinct
  and every producer of an edge is a component of the pipeline, so the graph on names
  is the graph on the component objects.
\<close>

theorem pipeline_acyclic:
  "acyclic (set (edges (create_pipeline env pn pr dr us mf sd mp bpa)))
   \<and> distinct (map ident (components (create_pipeline env pn pr dr us mf sd mp bpa)))
   \<and> set (map fst (edges (create_pipeline env pn pr dr us mf sd mp bpa)))
       \<subseteq> set (map ident (components (create_pipeline env pn pr dr us mf sd mp bpa)))"
proof -
  define p where "p = create_pipeline env pn pr dr us mf sd mp bpa"
  define rank where "rank = position (map ident (components p))"
  have "list_all (\<lambda>(x, y). rank x < rank y) (edges p)"
    unfolding rank_def using p_def by (rule edges_forward)
  then have "\<And>x y. (x, y) \<in> set (edges p) \<Longrightarrow> rank x < rank y"
    by (auto simp: list_all_iff)
  then have "acyclic (set (edges p))"
    by (rule acyclic_by_rank)
  moreover have "distinct (map ident (components p))"
    unfolding p_def create_pipeline_idents by simp
  moreover have "set (map fst (edges p)) \<subseteq> set (map ident (components p))"
    unfolding p_def create_pipeline_idents create_pipeline_edges by simp
  ultimately show ?thesis
    unfolding p_def by simp
qed

subsection \<open>C5: the paths\<close>

text \<open>
  Claim C5. When \<^verbatim>\<open>HOME\<close> is set to \<open>home\<close>, each of the six paths (data directory,
  user-provided schema directory, module file, serving model directory, metadata
  database file, pipeline root) is \<^verbatim>\<open>os.path.join\<close> of \<open>home\<close> and fixed components,
  and has \<open>home\<close> as a prefix. Run as main, the script passes each of them to
  \<^verbatim>\<open>_create_pipeline\<close> as the parameter of the same name (the parameters
  of \<open>create_pipeline\<close> after \<open>env\<close> are, in order, \<^verbatim>\<open>pipeline_name\<close>, \<^verbatim>\<open>pipeline_root\<close>,
  \<^verbatim>\<open>data_root\<close>, \<^verbatim>\<open>user_schema_path\<close>, \<^verbatim>\<open>module_file\<close>, \<^verbatim>\<open>serving_model_dir\<close>,
  \<^verbatim>\<open>metadata_path\<close>, \<^verbatim>\<open>beam_pipeline_args\<close>).
\<close>

theorem paths_under_HOME:
  assumes "map_of env ''HOME'' = Some home"
  shows "\<exists>g. module_level env = Inr g
     \<and> g_data_root g = os_path_join home [''taxi'', ''data'', ''simple'']
     \<and> g_user_schema_path g = os_path_join home [''taxi'', ''data'', ''user_provided_schema'']
     \<and> g_module_file g = os_path_join home [''taxi'', ''taxi_utils.py'']
     \<and> g_serving_model_dir g =
         os_path_join home [''taxi'', ''serving_model'', ''chicago_taxi_importer'']
     \<and> g_metadata_path g =
         os_path_join home [''tfx'', ''metadata'', ''chicago_taxi_importer'', ''metadata.db'']
     \<and> g_pipeline_root g = os_path_join home [''tfx'', ''pipelines'', ''chicago_taxi_importer'']
     \<and> list_all (prefix home)
         [g_data_root g, g_user_schema_path g, g_module_file g, g_serving_model_dir g,
          g_metadata_path g, g_pipeline_root g]
     \<and> run_calls (script env argv ''__main__'') =
         [create_pipeline env (g_pipeline_name g) (g_pipeline_root g) (g_data_root g)
            (g_user_schema_path g) (g_module_file g) (g_serving_model_dir g)
            (g_metadata_path g) (g_beam_pipeline_args g)]"
proof -
  note g = module_level_HOME [OF assms]
  have "prefix home (os_path_join home ps)" if "list_all (\<lambda>b. \<not> starts_with_sep b) ps" for ps
    using that by (rule os_path_join_prefix)
  then have "list_all (prefix home)
      [os_path_join home [''taxi'', ''data'', ''simple''],
       os_path_join home [''taxi'', ''data'', ''user_provided_schema''],
       os_path_join home [''taxi'', ''taxi_utils.py''],
       os_path_join home [''taxi'', ''serving_model'', ''chicago_taxi_importer''],
       os_path_join home [''tfx'', ''metadata'', ''chicago_taxi_importer'', ''metadata.db''],
       os_path_join home [''tfx'', ''pipelines'', ''chicago_taxi_importer'']]"
    by (simp add: starts_with_sep_def)
  then show ?thesis
    by (simp add: g run_calls_main [OF g])
qed

text \<open>The paths in a process whose \<^verbatim>\<open>HOME\<close> is \<^verbatim>\<open>/home/alice\<close>.\<close>

theorem paths_under_HOME_witness:
  "\<exists>g. module_level [(''HOME'', ''/home/alice'')] = Inr g
     \<and> g_data_root g = ''/home/alice/taxi/data/simple''
     \<and> g_user_schema_path g = ''/home/alice/taxi/data/user_provided_schema''
     \<and> g_module_file g = ''/home/alice/taxi/taxi_utils.py''
     \<and> g_serving_model_dir g = ''/home/alice/taxi/serving_model/chicago_taxi_importer''
     \<and> g_metadata_path g = ''/home/alice/tfx/metadata/chicago_taxi_importer/metadata.db''
     \<and> g_pipeline_root g = ''/home/alice/tfx/pipelines/chicago_taxi_importer''
     \<and> run_calls (script [(''HOME'', ''/home/alice'')] [] ''__main__'') =
         [create_pipeline [(''HOME'', ''/home/alice'')] (g_pipeline_name g) (g_pipeline_root g)
            (g_data_root g) (g_user_schema_path g) (g_module_file g) (g_serving_model_dir g)
            (g_metadata_path g) (g_beam_pipeline_args g)]"
proof -
  have h: "map_of [(''HOME'', ''/home/alice'')] ''HOME'' = Some ''/home/alice''"
    by simp
  from paths_under_HOME [OF h, of "[]"] obtain g where
    "module_level [(''HOME'', ''/home/alice'')] = Inr g"
    "g_data_root g = os_path_join ''/home/alice'' [''taxi'', ''data'', ''simple'']"
    "g_user_schema_path g =
       os_path_join ''/home/alice'' [''taxi'', ''data'', ''user_provided_schema'']"
    "g_module_file g = os_path_join ''/home/alice'' [''taxi'', ''taxi_utils.py'']"
    "g_serving_model_dir g =
       os_path_join ''/home/alice'' [''taxi'', ''serving_model'', ''chicago_taxi_importer'']"
    "g_metadata_path g =
       os_path_join ''/home/alice''
         [''tfx'', ''metadata'', ''chicago_taxi_importer'', ''metadata.db'']"
    "g_pipeline_root g =
       os_path_join ''/home/alice'' [''tfx'', ''pipelines'', ''chicago_taxi_importer'']"
    "run_calls (script [(''HOME'', ''/home/alice'')] [] ''__main__'') =
         [create_pipeline [(''HOME'', ''/home/alice'')] (g_pipeline_name g) (g_pipeline_root g)
            (g_data_root g) (g_user_schema_path g) (g_module_file g) (g_serving_model_dir g)
            (g_metadata_path g) (g_beam_pipeline_args g)]"
    by blast
  then show ?thesis
    by (intro exI [of _ g]) (simp add: os_path_join_def join_step_def starts_with_sep_def)
qed

subsection \<open>C6: the main block\<close>

text \<open>
  Run as main in a process that has no \<^verbatim>\<open>HOME\<close>, the script ends with the
  \<^verbatim>\<open>KeyError\<close> of the first \<^verbatim>\<open>os.environ['HOME']\<close> and never calls the runner.
\<close>

theorem main_without_HOME_raises:
  "script [] [] ''__main__'' = Inl (KeyError ''HOME'') \<and> run_calls (script [] [] ''__main__'') = []"
  by (simp add: script_def module_level_no_HOME)

text \<open>
  Claim C6, as amended. Run as main in a process where \<^verbatim>\<open>HOME\<close> is set, the script sets the
  logging verbosity and then calls the runner's \<^verbatim>\<open>run\<close> exactly once, with the pipeline
  that \<^verbatim>\<open>_create_pipeline\<close> builds from the module-level constants. The command line
  has no influence on what the script does.
\<close>

theorem main_runs_pipeline_once:
  assumes "map_of env ''HOME'' = Some home"
  shows "\<exists>g. module_level env = Inr g
     \<and> script env argv ''__main__'' =
         Inr [Set_verbosity INFO,
              BeamDagRunner_run
                (create_pipeline env (g_pipeline_name g) (g_pipeline_root g) (g_data_root g)
                   (g_user_schema_path g) (g_module_file g) (g_serving_model_dir g)
                   (g_metadata_path g) (g_beam_pipeline_args g))]
     \<and> length (run_calls (script env argv ''__main__'')) = 1
     \<and> script env argv' ''__main__'' = script env argv ''__main__''"
proof -
  note g = module_level_HOME [OF assms]
  show ?thesis
    by (simp add: g script_def)
qed

text \<open>The run in a process whose \<^verbatim>\<open>HOME\<close> is \<^verbatim>\<open>/home/alice\<close>, with and without a flag.\<close>

theorem main_runs_pipeline_once_witness:
  "\<exists>g. module_level [(''HOME'', ''/home/alice'')] = Inr g
     \<and> script [(''HOME'', ''/home/alice'')] [''--flag''] ''__main__'' =
         Inr [Set_verbosity INFO,
              BeamDagRunner_run
                (create_pipeline [(''HOME'', ''/home/alice'')] (g_pipeline_name g)
                   (g_pipeline_root g) (g_data_root g) (g_user_schema_path g) (g_module_file g)
                   (g_serving_model_dir g) (g_metadata_path g) (g_beam_pipeline_args g))]
     \<and> length (run_calls (script [(''HOME'', ''/home/alice'')] [''--flag''] ''__main__'')) = 1
     \<and> script [(''HOME'', ''/home/alice'')] [] ''__main__'' =
         script [(''HOME'', ''/home/alice'')] [''--flag''] ''__main__''"
proof -
  have h: "map_of [(''HOME'', ''/home/alice'')] ''HOME'' = Some ''/home/alice''"
    by simp
  show ?thesis
    by (rule main_runs_pipeline_once [OF h])
qed

subsection \<open>C7: the Pusher\<close>

text \<open>
  Claim C7. For all arguments, the pipeline has one Pusher. Its \<^verbatim>\<open>model\<close> is the
  \<^verbatim>\<open>model\<close> output of the component bound to \<^verbatim>\<open>trainer\<close>, which is a Trainer; its
  \<^verbatim>\<open>model_blessing\<close> is the \<^verbatim>\<open>blessing\<close> output of the component bound to
  \<^verbatim>\<open>evaluator\<close>, which is an Evaluator; and the base directory of its push destination
  is the argument \<^verbatim>\<open>serving_model_dir\<close>.
\<close>

theorem pusher_wiring:
  "of_class (create_pipeline env pn pr dr us mf sd mp bpa) ''Pusher'' =
     [\<lparr>ident = ''pusher'',
       obj = Pusher (Output ''trainer'' ''model'') (Output ''evaluator'' ''blessing'')
               \<lparr>filesystem = \<lparr>base_directory = sd\<rparr>\<rparr>\<rparr>]
   \<and> map_option (class_name \<circ> obj)
         (lookup_node (create_pipeline env pn pr dr us mf sd mp bpa) ''trainer'') = Some ''Trainer''
   \<and> map_option (class_name \<circ> obj)
         (lookup_node (create_pipeline env pn pr dr us mf sd mp bpa) ''evaluator'') =
       Some ''Evaluator''"
  by (simp add: of_class_def lookup_node_def create_pipeline_components)

subsection \<open>C8: which schema is used\<close>

text \<open>
  Claim C8. For all arguments, the components that are given a \<^verbatim>\<open>schema\<close> are the
  ExampleValidator, the Transform and the Trainer, and each is given the \<^verbatim>\<open>result\<close>
  output of \<^verbatim>\<open>user_schema_importer\<close>, the ImporterNode that imports a Schema from
  \<^verbatim>\<open>user_schema_path\<close>. The pipeline has one SchemaGen, and no component is given any
  of its outputs.
\<close>

theorem schema_from_importer:
  "schema_inputs (create_pipeline env pn pr dr us mf sd mp bpa) =
     [(''example_validator'', Output ''user_schema_importer'' ''result''),
      (''transform'', Output ''user_schema_importer'' ''result''),
      (''trainer'', Output ''user_schema_importer'' ''result'')]
   \<and> map (\<lambda>(x, ch). map_option (class_name \<circ> obj)
                (lookup_node (create_pipeline env pn pr dr us mf sd mp bpa) x))
       (schema_inputs (create_pipeline env pn pr dr us mf sd mp bpa)) =
       [Some ''ExampleValidator'', Some ''Transform'', Some ''Trainer'']
   \<and> lookup_node (create_pipeline env pn pr dr us mf sd mp bpa) ''user_schema_importer'' =
       Some \<lparr>ident = ''user_schema_importer'',
             obj = ImporterNode ''import_user_schema'' us Schema\<rparr>
   \<and> map ident (of_class (create_pipeline env pn pr dr us mf sd mp bpa) ''SchemaGen'') =
       [''schema_gen'']
   \<and> consumers (create_pipeline env pn pr dr us mf sd mp bpa) ''schema_gen'' = []"
  by (simp add: schema_inputs_def lookup_node_def of_class_def consumers_def
      create_pipeline_edges create_pipeline_components)

subsection \<open>C9: caching and metadata\<close>

text \<open>
  Claim C9. For all arguments, the pipeline is built with \<^verbatim>\<open>enable_cache=True\<close> and with
  the sqlite metadata connection configuration made from the argument \<^verbatim>\<open>metadata_path\<close>.
\<close>

theorem cache_and_metadata:
  "enable_cache (create_pipeline env pn pr dr us mf sd mp bpa) = True
   \<and> metadata_connection_config (create_pipeline env pn pr dr us mf sd mp bpa) =
       sqlite_metadata_connection_config mp"
  by (simp add: create_pipeline_def Let_def)

end
